theory Spec2Isabelle
  imports Main "HOL-Library.AList"
begin

section \<open>Paths as strings and as component lists\<close>

text \<open>
  The program handles paths as Python strings. A path below the directory an operation
  works in is a list of components; \<open>join_path\<close> is \<^verbatim>\<open>str(path.relative_to(source_dir))\<close>
  on POSIX (the components joined by a slash), \<open>split_sep\<close> is \<^verbatim>\<open>s.split('/')\<close>.
\<close>

type_synonym path = "string list"

fun split_sep :: "string \<Rightarrow> string list" where
  "split_sep [] = [[]]"
| "split_sep (c # cs) =
     (if c = CHR ''/'' then [] # split_sep cs
      else (case split_sep cs of [] \<Rightarrow> [[c]] | w # ws \<Rightarrow> (c # w) # ws))"

fun join_path :: "path \<Rightarrow> string" where
  "join_path [] = []"
| "join_path [c] = c"
| "join_path (c # d # cs) = c @ ''/'' @ join_path (d # cs)"

text \<open>\<^verbatim>\<open>os.path.isabs\<close> on POSIX: the string starts with a slash.\<close>

definition isabs :: "string \<Rightarrow> bool" where
  "isabs s = (case s of [] \<Rightarrow> False | c # _ \<Rightarrow> c = CHR ''/'')"

text \<open>
  \<^verbatim>\<open>Path(parent, target)\<close>: pathlib drops everything before an absolute segment.
\<close>

definition Path_join :: "string \<Rightarrow> string \<Rightarrow> string" where
  "Path_join parent seg = (if isabs seg then seg else parent @ ''/'' @ seg)"

text \<open>
  \<^verbatim>\<open>os.path.relpath(path, start)\<close> on two absolute, normalised paths given by their
  components: empty components are dropped, then the common prefix, one \<^verbatim>\<open>..\<close> climbs
  out of each remaining component of \<open>start\<close>, and the empty result is written \<^verbatim>\<open>.\<close>.
\<close>

fun commonprefix :: "path \<Rightarrow> path \<Rightarrow> path" where
  "commonprefix (x # xs) (y # ys) = (if x = y then x # commonprefix xs ys else [])"
| "commonprefix _ _ = []"

definition relpath :: "path \<Rightarrow> path \<Rightarrow> string" where
  "relpath p start =
     (let start_list = filter (\<lambda>x. x \<noteq> []) start;
          path_list = filter (\<lambda>x. x \<noteq> []) p;
          i = length (commonprefix start_list path_list);
          rel_list = replicate (length start_list - i) ''..'' @ drop i path_list
      in if rel_list = [] then ''.'' else join_path rel_list)"

text \<open>
  \<^verbatim>\<open>Path(arg).suffix\<close>: pathlib parses the argument (empty and \<^verbatim>\<open>.\<close> segments are
  dropped), takes the last component, and returns what starts at its last dot unless
  that dot is the first or the last character.
\<close>

definition path_name :: "string \<Rightarrow> string" where
  "path_name s =
     (case filter (\<lambda>x. x \<noteq> [] \<and> x \<noteq> ''.'') (split_sep s) of [] \<Rightarrow> [] | ps \<Rightarrow> last ps)"

fun rfind_dot :: "string \<Rightarrow> nat option" where
  "rfind_dot [] = None"
| "rfind_dot (c # cs) =
     (case rfind_dot cs of
        Some i \<Rightarrow> Some (Suc i)
      | None \<Rightarrow> (if c = CHR ''.'' then Some 0 else None))"

definition suffix :: "string \<Rightarrow> string" where
  "suffix s =
     (let name = path_name s in
      case rfind_dot name of
        None \<Rightarrow> []
      | Some i \<Rightarrow> (if 0 < i \<and> i < length name - 1 then drop i name else []))"

text \<open>
  A string that holds a NUL character is no path for the operating system: Python raises
  \<^verbatim>\<open>ValueError\<close> (embedded null byte) before any system call that would take it.
\<close>

definition has_nul :: "string \<Rightarrow> bool" where
  "has_nul s = (CHR 0x00 \<in> set s)"

section \<open>The file system below a directory\<close>

text \<open>
  File contents are opaque data that is no JSON document, or a JSON document: one that
  \<^verbatim>\<open>json.loads\<close> parses to a dictionary (given by its items, in order; a value is a
  string or anything else), or one that it parses to a value that is no dictionary (a
  number, a list, \<^verbatim>\<open>null\<close>). A directory is the list of its entries in \<^verbatim>\<open>scandir\<close>
  order.
\<close>

datatype jvalue = Str string | Other

datatype content = Data string | Json "(string \<times> jvalue) list" | Json_other

datatype node = File content | Dir "(string \<times> node) list" | Link string

type_synonym entries = "(string \<times> node) list"

text \<open>
  The exceptions the program can meet; \<open>OSError\<close> stands for an \<^verbatim>\<open>OSError\<close> of no
  more specific class. \<open>Beyond\<close> is not a Python exception: it marks a run that leaves
  the modelled directory (a path through a symbolic link, through \<^verbatim>\<open>..\<close> or absolute),
  about which the model says nothing.
\<close>

datatype exn =
    FileNotFoundError | FileExistsError | NotADirectoryError | IsADirectoryError
  | PermissionError | OSError | KeyError | JSONDecodeError | BadZipFile | ValueError
  | UnicodeEncodeError | RuntimeError | AttributeError | TypeError | Beyond

definition is_OSError :: "exn \<Rightarrow> bool" where
  "is_OSError e = (e \<in> {FileNotFoundError, FileExistsError, NotADirectoryError,
                         IsADirectoryError, PermissionError, OSError})"

datatype found = Absent | Found node | Outside

text \<open>\<^verbatim>\<open>lstat\<close>: the object at a path, the last component not followed.\<close>

fun lstat :: "entries \<Rightarrow> path \<Rightarrow> found" where
  "lstat es [] = Found (Dir es)"
| "lstat es (c # cs) =
     (case map_of es c of
        None \<Rightarrow> Absent
      | Some (Dir sub) \<Rightarrow> lstat sub cs
      | Some (File x) \<Rightarrow> (if cs = [] then Found (File x) else Absent)
      | Some (Link t) \<Rightarrow> (if cs = [] then Found (Link t) else Outside))"

text \<open>
  A change at the last component of a path, below directories that exist: the kernel's
  lookup of the parent, then the operation \<open>f\<close> on what the name holds.
\<close>

fun alter :: "(node option \<Rightarrow> exn + node option) \<Rightarrow> path \<Rightarrow> entries \<Rightarrow> exn + entries" where
  "alter f [] es = Inl IsADirectoryError"
| "alter f [c] es =
     (case f (map_of es c) of
        Inl e \<Rightarrow> Inl e
      | Inr None \<Rightarrow> Inr (AList.delete c es)
      | Inr (Some n) \<Rightarrow> Inr (AList.update c n es))"
| "alter f (c # d # cs) es =
     (case map_of es c of
        None \<Rightarrow> Inl FileNotFoundError
      | Some (File x) \<Rightarrow> Inl NotADirectoryError
      | Some (Link t) \<Rightarrow> Inl Beyond
      | Some (Dir sub) \<Rightarrow>
          (case alter f (d # cs) sub of
             Inl e \<Rightarrow> Inl e
           | Inr sub' \<Rightarrow> Inr (AList.update c (Dir sub') es)))"

text \<open>\<^verbatim>\<open>path.unlink()\<close>: removes a file or a symbolic link, never a directory.\<close>

definition unlink :: "path \<Rightarrow> entries \<Rightarrow> exn + entries" where
  "unlink =
     alter (\<lambda>slot. case slot of
                     None \<Rightarrow> Inl FileNotFoundError
                   | Some (Dir sub) \<Rightarrow> Inl IsADirectoryError
                   | Some n \<Rightarrow> Inr None)"

text \<open>
  \<^verbatim>\<open>open(path, 'w')\<close> and \<^verbatim>\<open>open(path, 'wb')\<close> followed by the write: creates the
  file or replaces its content; a symbolic link at the path would be written through.
\<close>

definition open_w :: "content \<Rightarrow> path \<Rightarrow> entries \<Rightarrow> exn + entries" where
  "open_w x =
     alter (\<lambda>slot. case slot of
                     Some (Dir sub) \<Rightarrow> Inl IsADirectoryError
                   | Some (Link t) \<Rightarrow> Inl Beyond
                   | _ \<Rightarrow> Inr (Some (File x)))"

text \<open>
  \<^verbatim>\<open>path.mkdir(parents=True, exist_ok=True)\<close> and \<^verbatim>\<open>os.makedirs\<close> of a path whose
  last component is missing: every missing component is created, an existing directory
  is entered, a file in the way raises.
\<close>

fun mkdir_p :: "path \<Rightarrow> entries \<Rightarrow> exn + entries" where
  "mkdir_p [] es = Inr es"
| "mkdir_p (c # cs) es =
     (case map_of es c of
        None \<Rightarrow>
          (case mkdir_p cs [] of
             Inl e \<Rightarrow> Inl e
           | Inr sub' \<Rightarrow> Inr (AList.update c (Dir sub') es))
      | Some (Dir sub) \<Rightarrow>
          (case mkdir_p cs sub of
             Inl e \<Rightarrow> Inl e
           | Inr sub' \<Rightarrow> Inr (AList.update c (Dir sub') es))
      | Some (File x) \<Rightarrow> Inl (if cs = [] then FileExistsError else NotADirectoryError)
      | Some (Link t) \<Rightarrow> Inl Beyond)"


section \<open>What the operating system decides\<close>

text \<open>
  Permissions, the objects that symbolic links lead to and the place of the source
  directory in the whole file system are not part of a directory's tree. They are
  parameters: every theorem holds for whatever they are, unless it says otherwise.
  Paths are relative to the source directory (\<open>readable\<close>, \<open>link_is_dir\<close>, \<open>zip_error\<close>)
  or to the target directory (\<open>may_symlink\<close>, \<open>link_exists\<close>); \<open>resolve\<close> and
  \<open>target_stat\<close> look at the whole file system. A call that can raise gives the
  exception or its result. Apart from these parameters the directories of the source
  and of the target are taken to be searchable and writable by the process, and the
  archive to lie outside the source directory.
\<close>

record env =
  readable :: "path \<Rightarrow> bool"
    \<comment> \<open>the directory at the path can be listed, the file at the path can be read\<close>
  link_is_dir :: "path \<Rightarrow> bool"
    \<comment> \<open>the symbolic link at the path leads to a directory\<close>
  resolve :: "string \<Rightarrow> exn + path"
    \<comment> \<open>\<^verbatim>\<open>Path(s).resolve()\<close> of an absolute path: the components below the root, or
        the exception (\<^verbatim>\<open>RuntimeError\<close> for a loop of symbolic links, up to Python 3.12)\<close>
  target_stat :: "path \<Rightarrow> exn + bool"
    \<comment> \<open>\<^verbatim>\<open>exists()\<close> of a resolved path: whether the object is there, or the exception
        (\<^verbatim>\<open>PermissionError\<close> below a directory that cannot be searched)\<close>
  source_root :: path
    \<comment> \<open>\<^verbatim>\<open>Path(source_dir).resolve()\<close>, as the components below the root\<close>
  zip_error :: "path \<Rightarrow> exn option"
    \<comment> \<open>what \<^verbatim>\<open>zf.write\<close> raises for the readable file at the path: \<^verbatim>\<open>UnicodeEncodeError\<close>
        for a name that cannot be encoded, \<^verbatim>\<open>ValueError\<close> for a time stamp before 1980\<close>
  zip_creatable :: bool
    \<comment> \<open>the target archive can be created or truncated\<close>
  may_symlink :: "path \<Rightarrow> bool"
    \<comment> \<open>platform and permissions let \<^verbatim>\<open>os.symlink\<close> create a link at the path\<close>
  link_exists :: "path \<Rightarrow> exn + bool"
    \<comment> \<open>\<^verbatim>\<open>exists()\<close> of the symbolic link at the path, which follows the link: whether
        it leads to an object, or the exception (\<^verbatim>\<open>PermissionError\<close> when it leads below
        a directory that cannot be searched)\<close>

section \<open>The directory walk\<close>

text \<open>
  \<^verbatim>\<open>os.walk(top, followlinks=False)\<close>, top down: one triple (directory, names of
  the entries that are directories, names of the others) for each directory that can be
  listed. An entry that is a symbolic link counts as a directory when it leads to one,
  and is never entered. The default \<^verbatim>\<open>onerror=None\<close> drops the error of a
  directory that cannot be listed: nothing is yielded for it.
\<close>

definition entry_is_dir :: "env \<Rightarrow> path \<Rightarrow> node \<Rightarrow> bool" where
  "entry_is_dir env p n =
     (case n of Dir sub \<Rightarrow> True | File x \<Rightarrow> False | Link t \<Rightarrow> link_is_dir env p)"

type_synonym triple = "path \<times> string list \<times> string list"

fun walk :: "env \<Rightarrow> path \<Rightarrow> entries \<Rightarrow> triple list"
  and walk_dirs :: "env \<Rightarrow> path \<Rightarrow> entries \<Rightarrow> triple list" where
  "walk env root es =
     (if readable env root
      then (root,
            map fst (filter (\<lambda>(n, x). entry_is_dir env (root @ [n]) x) es),
            map fst (filter (\<lambda>(n, x). \<not> entry_is_dir env (root @ [n]) x) es))
           # walk_dirs env root es
      else [])"
| "walk_dirs env root [] = []"
| "walk_dirs env root ((n, Dir sub) # rest) = walk env (root @ [n]) sub @ walk_dirs env root rest"
| "walk_dirs env root ((n, File x) # rest) = walk_dirs env root rest"
| "walk_dirs env root ((n, Link t) # rest) = walk_dirs env root rest"

section \<open>Packing\<close>

definition is_valid_symlink :: "entries \<Rightarrow> path \<Rightarrow> bool" where
  "is_valid_symlink src link_path =
     (case lstat src link_path of Found (Link t) \<Rightarrow> True | _ \<Rightarrow> False)"

text \<open>\<^verbatim>\<open>os.readlink\<close>: the stored target of a symbolic link, an error for anything else.\<close>

definition readlink :: "entries \<Rightarrow> path \<Rightarrow> exn + string" where
  "readlink src link_path =
     (case lstat src link_path of
        Found (Link t) \<Rightarrow> Inr t
      | Absent \<Rightarrow> Inl FileNotFoundError
      | Outside \<Rightarrow> Inl Beyond
      | Found n \<Rightarrow> Inl OSError)"

text \<open>
  \<open>abs_string\<close> writes the absolute path of an object of the source tree: the source
  root, then the components.
\<close>

definition abs_string :: "env \<Rightarrow> path \<Rightarrow> string" where
  "abs_string env p = concat (map (\<lambda>c. ''/'' @ c) (source_root env @ p))"

text \<open>
  \<^verbatim>\<open>except OSError\<close> around a body with the handler's value \<open>h\<close>: an \<^verbatim>\<open>OSError\<close>
  gives \<open>h\<close>, every other exception goes on.
\<close>

definition except_OSError :: "exn + 'a \<Rightarrow> 'a \<Rightarrow> exn + 'a" where
  "except_OSError body h =
     (case body of Inl e \<Rightarrow> (if is_OSError e then Inr h else Inl e) | Inr v \<Rightarrow> Inr v)"

text \<open>
  \<open>get_relative_link_target\<close>: the three calls of the \<^verbatim>\<open>try\<close> block that can raise are
  \<^verbatim>\<open>os.readlink\<close>, \<^verbatim>\<open>resolve()\<close> and \<^verbatim>\<open>exists()\<close>. An \<^verbatim>\<open>OSError\<close> of any of them
  makes the function return \<^verbatim>\<open>None\<close>; another exception leaves the function. The
  value of \<^verbatim>\<open>exists()\<close> decides about a warning only.
\<close>

definition get_relative_link_target :: "env \<Rightarrow> entries \<Rightarrow> path \<Rightarrow> exn + string option" where
  "get_relative_link_target env src link_path =
     except_OSError
       (case readlink src link_path of
          Inl e \<Rightarrow> Inl e
        | Inr target \<Rightarrow>
            if \<not> isabs target then Inr (Some target)
            else
              (case resolve env (Path_join (abs_string env (butlast link_path)) target) of
                 Inl e \<Rightarrow> Inl e
               | Inr target_path \<Rightarrow>
                   (case target_stat env target_path of
                      Inl e \<Rightarrow> Inl e
                    | Inr found \<Rightarrow>
                        let relative_target = relpath target_path (source_root env)
                        in Inr (Some relative_target))))
       None"

text \<open>
  \<open>links\<close> is the dictionary that the scan builds, from strings to strings;
  \<open>json_dump\<close> is the document that \<^verbatim>\<open>json.dump\<close> writes for it. A \<open>manifest\<close> is a
  dictionary as \<^verbatim>\<open>json.loads\<close> returns it. An archive is the list of its entries, the
  names as \<^verbatim>\<open>namelist()\<close> returns them.
\<close>

type_synonym links = "(string \<times> string) list"
type_synonym manifest = "(string \<times> jvalue) list"
type_synonym archive = "(string \<times> content) list"

definition json_dump :: "links \<Rightarrow> content" where
  "json_dump links = Json (map (\<lambda>(k, v). (k, Str v)) links)"

text \<open>
  The body of the first loop, for one name of \<^verbatim>\<open>files + dirs\<close>, then the inner and
  the outer loop. An exception of \<open>get_relative_link_target\<close> ends the scan.
\<close>

definition scan_item :: "env \<Rightarrow> entries \<Rightarrow> path \<Rightarrow> links \<Rightarrow> exn + links" where
  "scan_item env src item_path links =
     (let rel_path = join_path item_path in
      if is_valid_symlink src item_path then
        (case get_relative_link_target env src item_path of
           Inl e \<Rightarrow> Inl e
         | Inr None \<Rightarrow> Inr links
         | Inr (Some link_target) \<Rightarrow>
             Inr (if link_target \<noteq> [] then AList.update rel_path link_target links else links))
      else Inr links)"

fun scan_names :: "env \<Rightarrow> entries \<Rightarrow> path \<Rightarrow> string list \<Rightarrow> links \<Rightarrow> exn + links" where
  "scan_names env src root [] links = Inr links"
| "scan_names env src root (name # names) links =
     (case scan_item env src (root @ [name]) links of
        Inl e \<Rightarrow> Inl e
      | Inr links' \<Rightarrow> scan_names env src root names links')"

fun scan_tree :: "env \<Rightarrow> entries \<Rightarrow> triple list \<Rightarrow> links \<Rightarrow> exn + links" where
  "scan_tree env src [] links = Inr links"
| "scan_tree env src ((root, dirs, files) # rest) links =
     (case scan_names env src root (files @ dirs) links of
        Inl e \<Rightarrow> Inl e
      | Inr links' \<Rightarrow> scan_tree env src rest links')"

definition scan_links :: "env \<Rightarrow> entries \<Rightarrow> exn + links" where
  "scan_links env src = scan_tree env src (walk env [] src) []"

definition links_json :: path where
  "links_json = [''links.json'']"

text \<open>
  \<^verbatim>\<open>zf.write(file_path, arcname=...)\<close>: the file is opened and read, and one more entry
  is appended to the archive, also when the name is there already. A directory would be
  stored as an empty entry whose name ends with a slash. A file whose name cannot be
  encoded or whose time stamp lies before 1980 raises. The manifest file at the top of
  the source is the one file the program has written itself, the moment before: its
  name is ASCII and its time stamp is the clock's, so \<open>zip_error\<close> is asked about the
  other files only.
\<close>

definition zf_write :: "env \<Rightarrow> entries \<Rightarrow> path \<Rightarrow> string \<Rightarrow> archive \<Rightarrow> exn + archive" where
  "zf_write env src file_path arcname zf =
     (case lstat src file_path of
        Absent \<Rightarrow> Inl FileNotFoundError
      | Outside \<Rightarrow> Inl Beyond
      | Found (Link t) \<Rightarrow> Inl Beyond
      | Found (Dir sub) \<Rightarrow> Inr (zf @ [(arcname @ ''/'', Data [])])
      | Found (File x) \<Rightarrow>
          if \<not> readable env file_path then Inl PermissionError
          else
            (case (if file_path = links_json then None else zip_error env file_path) of
               Some e \<Rightarrow> Inl e
             | None \<Rightarrow> Inr (zf @ [(arcname, x)])))"

fun zip_files :: "env \<Rightarrow> entries \<Rightarrow> path \<Rightarrow> string list \<Rightarrow> archive \<Rightarrow> exn option \<times> archive" where
  "zip_files env src root [] zf = (None, zf)"
| "zip_files env src root (file # files) zf =
     (let file_path = root @ [file] in
      if \<not> is_valid_symlink src file_path then
        (case zf_write env src file_path (join_path file_path) zf of
           Inl e \<Rightarrow> (Some e, zf)
         | Inr zf' \<Rightarrow> zip_files env src root files zf')
      else zip_files env src root files zf)"

fun zip_tree :: "env \<Rightarrow> entries \<Rightarrow> triple list \<Rightarrow> archive \<Rightarrow> exn option \<times> archive" where
  "zip_tree env src [] zf = (None, zf)"
| "zip_tree env src ((root, dirs, files) # rest) zf =
     (case zip_files env src root files zf of
        (Some e, zf') \<Rightarrow> (Some e, zf')
      | (None, zf') \<Rightarrow> zip_tree env src rest zf')"

text \<open>
  What the two command-line arguments name: a directory, a zip archive, or some other
  file. The error log holds what \<^verbatim>\<open>logger.error\<close> receives.
\<close>

datatype fsobj = DirObj entries | ZipObj archive | FileObj

datatype logmsg = Restore_failed string jvalue exn | Invalid_arguments | Error exn

record world =
  source :: "fsobj option"
  target :: "fsobj option"
  errors :: "logmsg list"

text \<open>\<^verbatim>\<open>zipfile.ZipFile(target_zip, 'w')\<close>: a new, empty archive in place of any file.\<close>

definition ZipFile_w :: "env \<Rightarrow> fsobj option \<Rightarrow> exn + archive" where
  "ZipFile_w env obj =
     (case obj of
        Some (DirObj es) \<Rightarrow> Inl IsADirectoryError
      | _ \<Rightarrow> if zip_creatable env then Inr [] else Inl FileNotFoundError)"

definition package_directory :: "env \<Rightarrow> world \<Rightarrow> exn option \<times> world" where
  "package_directory env w =
     (case source w of
        None \<Rightarrow> (Some FileNotFoundError, w)
      | Some FileObj \<Rightarrow> (Some NotADirectoryError, w)
      | Some (ZipObj z) \<Rightarrow> (Some NotADirectoryError, w)
      | Some (DirObj src) \<Rightarrow>
          (case scan_links env src of
             Inl e \<Rightarrow> (Some e, w)
           | Inr links \<Rightarrow>
          (case open_w (json_dump links) links_json src of
             Inl e \<Rightarrow> (Some e, w)
           | Inr src1 \<Rightarrow>
               let w1 = w\<lparr>source := Some (DirObj src1)\<rparr> in
               (case ZipFile_w env (target w) of
                  Inl e \<Rightarrow> (Some e, w1)
                | Inr zf0 \<Rightarrow>
                    (case zf_write env src1 links_json ''links.json'' zf0 of
                       Inl e \<Rightarrow> (Some e, w1\<lparr>target := Some (ZipObj zf0)\<rparr>)
                     | Inr zf1 \<Rightarrow>
                         (case zip_tree env src1 (walk env [] src1) zf1 of
                            (Some e, zf2) \<Rightarrow> (Some e, w1\<lparr>target := Some (ZipObj zf2)\<rparr>)
                          | (None, zf2) \<Rightarrow>
                              (case unlink links_json src1 of
                                 Inl e \<Rightarrow> (Some e, w1\<lparr>target := Some (ZipObj zf2)\<rparr>)
                               | Inr src2 \<Rightarrow>
                                   (None, w\<lparr>source := Some (DirObj src2),
                                            target := Some (ZipObj zf2)\<rparr>))))))))"

section \<open>Unpacking\<close>

text \<open>
  \<^verbatim>\<open>zipfile.ZipFile(source_zip, 'r')\<close>, and the lookup of an entry by its name: when a
  name occurs twice, the archive's directory holds the entry written last.
\<close>

definition ZipFile_r :: "fsobj option \<Rightarrow> exn + archive" where
  "ZipFile_r obj =
     (case obj of
        None \<Rightarrow> Inl FileNotFoundError
      | Some (DirObj es) \<Rightarrow> Inl IsADirectoryError
      | Some FileObj \<Rightarrow> Inl BadZipFile
      | Some (ZipObj zf) \<Rightarrow> Inr zf)"

definition zip_read :: "archive \<Rightarrow> string \<Rightarrow> content option" where
  "zip_read zf name = map_of (rev zf) name"

text \<open>
  \<^verbatim>\<open>json.loads\<close>: the dictionary, or \<open>None\<close> for a JSON value that is no dictionary;
  such a value is found out only when the loop of line 122 asks for its items, which
  raises \<^verbatim>\<open>AttributeError\<close>.
\<close>

definition json_loads :: "content \<Rightarrow> exn + manifest option" where
  "json_loads x =
     (case x of
        Data s \<Rightarrow> Inl JSONDecodeError
      | Json kvs \<Rightarrow> Inr (Some kvs)
      | Json_other \<Rightarrow> Inr None)"

text \<open>
  \<^verbatim>\<open>zf.extract(member, target_dir)\<close>: the entry's name loses its empty, \<^verbatim>\<open>.\<close> and
  \<^verbatim>\<open>..\<close> segments; the directories above are made when the path above does not
  exist; a name that ends with a slash stands for a directory; anything else is written
  as a file.
\<close>

definition member_parts :: "string \<Rightarrow> path" where
  "member_parts member =
     filter (\<lambda>x. x \<noteq> [] \<and> x \<noteq> ''.'' \<and> x \<noteq> ''..'') (split_sep member)"

definition ends_with_slash :: "string \<Rightarrow> bool" where
  "ends_with_slash s = (s \<noteq> [] \<and> last s = CHR ''/'')"

definition path_exists :: "entries \<Rightarrow> path \<Rightarrow> exn + bool" where
  "path_exists es p =
     (case lstat es p of
        Absent \<Rightarrow> Inr False
      | Outside \<Rightarrow> Inl Beyond
      | Found (Link t) \<Rightarrow> Inl Beyond
      | Found n \<Rightarrow> Inr True)"

definition mkdir :: "path \<Rightarrow> entries \<Rightarrow> exn + entries" where
  "mkdir =
     alter (\<lambda>slot. case slot of None \<Rightarrow> Inr (Some (Dir [])) | Some n \<Rightarrow> Inl FileExistsError)"

definition zf_extract :: "archive \<Rightarrow> string \<Rightarrow> entries \<Rightarrow> exn + entries" where
  "zf_extract zf member tgt =
     (case zip_read zf member of
        None \<Rightarrow> Inl KeyError
      | Some x \<Rightarrow>
          let arcname = member_parts member; is_dir = ends_with_slash member in
          if arcname = [] then (if is_dir then Inr tgt else Inl ValueError)
          else
            let upperdirs = butlast arcname in
            (case (case path_exists tgt upperdirs of
                     Inl e \<Rightarrow> Inl e
                   | Inr True \<Rightarrow> Inr tgt
                   | Inr False \<Rightarrow> mkdir_p upperdirs tgt) of
               Inl e \<Rightarrow> Inl e
             | Inr tgt1 \<Rightarrow>
                 if is_dir then
                   (case lstat tgt1 arcname of
                      Found (Dir sub) \<Rightarrow> Inr tgt1
                    | Found (Link t) \<Rightarrow> Inl Beyond
                    | Outside \<Rightarrow> Inl Beyond
                    | _ \<Rightarrow> mkdir arcname tgt1)
                 else open_w x arcname tgt1))"

fun extract_all :: "archive \<Rightarrow> string list \<Rightarrow> entries \<Rightarrow> exn option \<times> entries" where
  "extract_all zf [] tgt = (None, tgt)"
| "extract_all zf (member # members) tgt =
     (if member \<noteq> ''links.json'' then
        (case zf_extract zf member tgt of
           Inl e \<Rightarrow> (Some e, tgt)
         | Inr tgt' \<Rightarrow> extract_all zf members tgt')
      else extract_all zf members tgt)"

text \<open>Lines 115 to 118: the manifest file is removed from the target when it exists.\<close>

definition remove_links_json :: "entries \<Rightarrow> exn + entries" where
  "remove_links_json tgt =
     (case path_exists tgt links_json of
        Inl e \<Rightarrow> Inl e
      | Inr False \<Rightarrow> Inr tgt
      | Inr True \<Rightarrow> unlink links_json tgt)"

text \<open>
  \<^verbatim>\<open>target_dir / link_path\<close>: pathlib splits the key at the slashes and drops the
  empty and \<^verbatim>\<open>.\<close> segments. \<^verbatim>\<open>os.symlink\<close> raises \<^verbatim>\<open>TypeError\<close> for a target
  that is no string and \<^verbatim>\<open>ValueError\<close> for a NUL in the target or in the path,
  refuses an empty target, and fails where the platform or the permissions do not let
  it create a link.
\<close>

definition key_parts :: "string \<Rightarrow> path" where
  "key_parts key = filter (\<lambda>x. x \<noteq> [] \<and> x \<noteq> ''.'') (split_sep key)"

definition os_symlink :: "env \<Rightarrow> jvalue \<Rightarrow> path \<Rightarrow> entries \<Rightarrow> exn + entries" where
  "os_symlink env v p tgt =
     (case v of
        Other \<Rightarrow> Inl TypeError
      | Str t \<Rightarrow>
          if has_nul t \<or> has_nul (concat p) then Inl ValueError
          else if t = [] then Inl FileNotFoundError
          else if \<not> may_symlink env p then Inl PermissionError
          else alter (\<lambda>slot. case slot of
                               None \<Rightarrow> Inr (Some (Link t))
                             | Some n \<Rightarrow> Inl FileExistsError) p tgt)"

text \<open>
  Lines 126 to 131 of the loop body, all outside the \<^verbatim>\<open>try\<close>. The parent directory
  is made; \<^verbatim>\<open>mkdir\<close> raises \<^verbatim>\<open>ValueError\<close> for a NUL in its path. Then
  \<^verbatim>\<open>target_path.exists() or target_path.is_symlink()\<close> is asked: both give
  \<^verbatim>\<open>False\<close> for a NUL in the path; \<^verbatim>\<open>exists()\<close> is true of a file and of a
  directory, and follows a symbolic link, where it can raise; when it returns, one of
  the two is true of a symbolic link. Whatever is found is unlinked.
\<close>

definition clear_path :: "env \<Rightarrow> path \<Rightarrow> entries \<Rightarrow> exn + entries" where
  "clear_path env target_path tgt =
     (if has_nul (concat (butlast target_path)) then Inl ValueError
      else
        (case mkdir_p (butlast target_path) tgt of
           Inl e \<Rightarrow> Inl e
         | Inr tgt1 \<Rightarrow>
             if has_nul (concat target_path) then Inr tgt1
             else
               (case lstat tgt1 target_path of
                  Absent \<Rightarrow> Inr tgt1
                | Outside \<Rightarrow> Inl Beyond
                | Found (Link t) \<Rightarrow>
                    (case link_exists env target_path of
                       Inl e \<Rightarrow> Inl e
                     | Inr found \<Rightarrow> unlink target_path tgt1)
                | Found n \<Rightarrow> unlink target_path tgt1)))"

fun restore_links ::
  "env \<Rightarrow> manifest \<Rightarrow> entries \<times> logmsg list \<Rightarrow> exn option \<times> entries \<times> logmsg list" where
  "restore_links env [] (tgt, log) = (None, tgt, log)"
| "restore_links env ((link_path, link_target) # rest) (tgt, log) =
     (let target_path = key_parts link_path in
      if isabs link_path \<or> ''..'' \<in> set target_path then (Some Beyond, tgt, log)
      else if target_path = [] then (Some IsADirectoryError, tgt, log)
      else
        (case clear_path env target_path tgt of
           Inl e \<Rightarrow> (Some e, tgt, log)
         | Inr tgt2 \<Rightarrow>
             (case os_symlink env link_target target_path tgt2 of
                Inr tgt3 \<Rightarrow> restore_links env rest (tgt3, log)
              | Inl e \<Rightarrow>
                  if is_OSError e
                  then restore_links env rest
                         (tgt2, log @ [Restore_failed link_path link_target e])
                  else (Some e, tgt2, log))))"

definition unpackage_directory :: "env \<Rightarrow> world \<Rightarrow> exn option \<times> world" where
  "unpackage_directory env w =
     (case (case target w of
              None \<Rightarrow> Inr []
            | Some (DirObj es) \<Rightarrow> Inr es
            | Some obj \<Rightarrow> Inl FileExistsError) of
        Inl e \<Rightarrow> (Some e, w)
      | Inr tgt0 \<Rightarrow>
          let w0 = w\<lparr>target := Some (DirObj tgt0)\<rparr> in
          (case ZipFile_r (source w) of
             Inl e \<Rightarrow> (Some e, w0)
           | Inr zf \<Rightarrow>
               (case zip_read zf ''links.json'' of
                  None \<Rightarrow> (Some KeyError, w0)
                | Some links_json_data \<Rightarrow>
                    (case json_loads links_json_data of
                       Inl e \<Rightarrow> (Some e, w0)
                     | Inr links \<Rightarrow>
                         (case extract_all zf (map fst zf) tgt0 of
                            (Some e, tgt1) \<Rightarrow> (Some e, w\<lparr>target := Some (DirObj tgt1)\<rparr>)
                          | (None, tgt1) \<Rightarrow>
                              (case remove_links_json tgt1 of
                                 Inl e \<Rightarrow> (Some e, w\<lparr>target := Some (DirObj tgt1)\<rparr>)
                               | Inr tgt2 \<Rightarrow>
                                   (case links of
                                      None \<Rightarrow>
                                        (Some AttributeError, w\<lparr>target := Some (DirObj tgt2)\<rparr>)
                                    | Some items \<Rightarrow>
                                        (case restore_links env items (tgt2, errors w) of
                                           (r, tgt3, log) \<Rightarrow>
                                             (r, w\<lparr>target := Some (DirObj tgt3),
                                                   errors := log\<rparr>)))))))))"

section \<open>The command line\<close>

text \<open>
  \<open>main\<close> returns the exit status of the process and the world it leaves. A run that
  ends normally exits with 0; any exception is logged and turned into \<^verbatim>\<open>exit(1)\<close>.
\<close>

datatype status = Exit nat | Unknown

definition finish :: "exn option \<times> world \<Rightarrow> status \<times> world" where
  "finish r =
     (case r of
        (None, w) \<Rightarrow> (Exit 0, w)
      | (Some Beyond, w) \<Rightarrow> (Unknown, w)
      | (Some e, w) \<Rightarrow> (Exit 1, w\<lparr>errors := errors w @ [Error e]\<rparr>))"

definition is_dir_obj :: "fsobj option \<Rightarrow> bool" where
  "is_dir_obj obj = (case obj of Some (DirObj es) \<Rightarrow> True | _ \<Rightarrow> False)"

definition main :: "env \<Rightarrow> string \<Rightarrow> string \<Rightarrow> world \<Rightarrow> status \<times> world" where
  "main env source_arg target_arg w =
     (if is_dir_obj (source w) \<and> suffix target_arg = ''.zip''
      then finish (package_directory env w)
      else if suffix source_arg = ''.zip'' \<and> (is_dir_obj (target w) \<or> target w = None)
      then finish (unpackage_directory env w)
      else (Exit 1, w\<lparr>errors := errors w @ [Invalid_arguments]\<rparr>))"

section \<open>A concrete environment and concrete trees\<close>

text \<open>
  In \<open>plain_env\<close> everything may be read, examined, archived and created, no symbolic
  link leads to a directory, no link lies on the way to an absolute target, and the
  source directory is \<^verbatim>\<open>/tmp/src\<close>. The others differ from it in one point each: in
  \<open>locked_env\<close> the directory \<^verbatim>\<open>sub\<close> of the source cannot be listed;
  \<open>no_zip_env\<close> cannot create the archive; \<open>no_link_env\<close> cannot create the link
  \<^verbatim>\<open>a\<close>; \<open>root_locked_env\<close> cannot list the source root; in \<open>guarded_env\<close> the
  directory \<^verbatim>\<open>/root\<close> cannot be searched, so that \<^verbatim>\<open>exists()\<close> raises for what lies
  below it; in \<open>loop_env\<close> the path \<^verbatim>\<open>/loop\<close> is a symbolic link to itself.
\<close>

definition plain_env :: env where
  "plain_env =
     \<lparr>readable = (\<lambda>p. True), link_is_dir = (\<lambda>p. False),
      resolve = (\<lambda>s. Inr (filter (\<lambda>x. x \<noteq> []) (split_sep s))),
      target_stat = (\<lambda>p. Inr True),
      source_root = [''tmp'', ''src''], zip_error = (\<lambda>p. None), zip_creatable = True,
      may_symlink = (\<lambda>p. True), link_exists = (\<lambda>p. Inr True)\<rparr>"

definition guarded_env :: env where
  "guarded_env =
     plain_env\<lparr>target_stat := (\<lambda>p. if take 1 p = [''root''] then Inl PermissionError else Inr True),
               link_exists := (\<lambda>p. if p = [''a''] then Inl PermissionError else Inr True)\<rparr>"

definition loop_env :: env where
  "loop_env =
     plain_env\<lparr>resolve := (\<lambda>s. if s = ''/loop'' then Inl RuntimeError
                                else Inr (filter (\<lambda>x. x \<noteq> []) (split_sep s)))\<rparr>"


definition no_zip_env :: env where
  "no_zip_env = plain_env\<lparr>zip_creatable := False\<rparr>"

definition no_link_env :: env where
  "no_link_env = plain_env\<lparr>may_symlink := (\<lambda>p. p \<noteq> [''a''])\<rparr>"


text \<open>The tree of the specification's scenario, and the world in which it is packed.\<close>

definition example_tree :: entries where
  "example_tree =
     [(''a.txt'', File (Data ''hello'')),
      (''link_rel'', Link ''a.txt''),
      (''sub'', Dir [(''link_abs'', Link ''/etc/hosts'')])]"

definition world_of :: "fsobj option \<Rightarrow> fsobj option \<Rightarrow> world" where
  "world_of src tgt = \<lparr>source = src, target = tgt, errors = []\<rparr>"

section \<open>Well-formed trees and the relation between a restored tree and its source\<close>






definition present :: "entries \<Rightarrow> path \<Rightarrow> bool" where
  "present es p = (case lstat es p of Found n \<Rightarrow> True | _ \<Rightarrow> False)"

section \<open>The link resolver\<close>

lemma Path_join_abs: "isabs t \<Longrightarrow> Path_join parent t = t"
  by (simp add: Path_join_def)

text \<open>
  Claim C3, as stated, fails for an absolute target that cannot be examined: with the
  link \<^verbatim>\<open>l\<close> to \<^verbatim>\<open>/root/x\<close>, below a directory the process cannot search,
  \<^verbatim>\<open>exists()\<close> raises \<^verbatim>\<open>PermissionError\<close> inside the \<^verbatim>\<open>try\<close>, and the function
  returns \<^verbatim>\<open>None\<close>, not the resolved target relative to the source root.
\<close>

theorem unexaminable_target_returns_None:
  "lstat [(''l'', Link ''/root/x'')] [''l''] = Found (Link ''/root/x'') \<and>
   resolve guarded_env ''/root/x'' = Inr [''root'', ''x''] \<and>
   target_stat guarded_env [''root'', ''x''] = Inl PermissionError \<and>
   get_relative_link_target guarded_env [(''l'', Link ''/root/x'')] [''l''] = Inr None"
  by code_simp

text \<open>
  Claim C3, amended. For a symbolic link of the source tree, \<open>get_relative_link_target\<close>
  returns the raw target unchanged when it is relative. When it is absolute, joining it
  to the link's parent directory gives the target itself; when that resolves to a path
  and \<^verbatim>\<open>exists()\<close> of the path returns, the function returns the path re-expressed
  relative to the source root; when one of the two raises, the function returns
  \<^verbatim>\<open>None\<close> for an \<^verbatim>\<open>OSError\<close> and raises the exception otherwise.
\<close>

theorem get_relative_link_target_cases:
  assumes "lstat src link_path = Found (Link raw)"
  shows "(\<not> isabs raw \<longrightarrow> get_relative_link_target env src link_path = Inr (Some raw)) \<and>
         (isabs raw \<longrightarrow>
            Path_join (abs_string env (butlast link_path)) raw = raw \<and>
            get_relative_link_target env src link_path =
              (case resolve env raw of
                 Inl e \<Rightarrow> (if is_OSError e then Inr None else Inl e)
               | Inr target_path \<Rightarrow>
                   (case target_stat env target_path of
                      Inl e \<Rightarrow> (if is_OSError e then Inr None else Inl e)
                    | Inr found \<Rightarrow> Inr (Some (relpath target_path (source_root env))))))"
  using assms
  by (simp add: get_relative_link_target_def except_OSError_def readlink_def Path_join_abs
      split: sum.splits)

theorem get_relative_link_target_cases_witness:
  "get_relative_link_target plain_env example_tree [''link_rel''] = Inr (Some ''a.txt'') \<and>
   get_relative_link_target plain_env [(''l'', Link ''../x/../y'')] [''l''] = Inr (Some ''../x/../y'') \<and>
   get_relative_link_target plain_env example_tree [''sub'', ''link_abs''] =
     Inr (Some ''../../etc/hosts'') \<and>
   get_relative_link_target loop_env [(''l'', Link ''/loop'')] [''l''] = Inl RuntimeError"
proof -
  have r: "lstat example_tree [''link_rel''] = Found (Link ''a.txt'')"
    by code_simp
  have nr: "\<not> isabs ''a.txt''"
    by code_simp
  have d: "lstat [(''l'', Link ''../x/../y'')] [''l''] = Found (Link ''../x/../y'')"
    by code_simp
  have nd: "\<not> isabs ''../x/../y''"
    by code_simp
  have a: "lstat example_tree [''sub'', ''link_abs''] = Found (Link ''/etc/hosts'')"
    by code_simp
  have ia: "isabs ''/etc/hosts''"
    by code_simp
  have v: "(case resolve plain_env ''/etc/hosts'' of
              Inl e \<Rightarrow> (if is_OSError e then Inr None else Inl e)
            | Inr target_path \<Rightarrow>
                (case target_stat plain_env target_path of
                   Inl e \<Rightarrow> (if is_OSError e then Inr None else Inl e)
                 | Inr found \<Rightarrow> Inr (Some (relpath target_path (source_root plain_env))))) =
           Inr (Some ''../../etc/hosts'')"
    by code_simp
  have o: "lstat [(''l'', Link ''/loop'')] [''l''] = Found (Link ''/loop'')"
    by code_simp
  have io: "isabs ''/loop''"
    by code_simp
  have vo: "(case resolve loop_env ''/loop'' of
              Inl e \<Rightarrow> (if is_OSError e then Inr None else Inl e)
            | Inr target_path \<Rightarrow>
                (case target_stat loop_env target_path of
                   Inl e \<Rightarrow> (if is_OSError e then Inr None else Inl e)
                 | Inr found \<Rightarrow> Inr (Some (relpath target_path (source_root loop_env))))) =
           Inl RuntimeError"
    by code_simp
  from get_relative_link_target_cases [OF r, of plain_env] nr
  have 1: "get_relative_link_target plain_env example_tree [''link_rel''] = Inr (Some ''a.txt'')"
    by blast
  from get_relative_link_target_cases [OF d, of plain_env] nd
  have 2: "get_relative_link_target plain_env [(''l'', Link ''../x/../y'')] [''l''] =
             Inr (Some ''../x/../y'')"
    by blast
  from get_relative_link_target_cases [OF a, of plain_env] ia
  have 3: "get_relative_link_target plain_env example_tree [''sub'', ''link_abs''] =
             Inr (Some ''../../etc/hosts'')"
    using v by simp
  from get_relative_link_target_cases [OF o, of loop_env] io
  have 4: "get_relative_link_target loop_env [(''l'', Link ''/loop'')] [''l''] = Inl RuntimeError"
    using vo by simp
  from 1 2 3 4 show ?thesis by simp
qed

section \<open>The entries of the archive\<close>

text \<open>
  Claim C2, at the empty source directory. The manifest file is written into the source
  directory before the archive is filled, so the second walk finds it there as a regular
  file and stores it once more: the archive of the empty directory has two entries named
  \<^verbatim>\<open>links.json\<close>, not one manifest entry and no file entry.
\<close>

theorem package_empty_tree_duplicate_manifest:
  "package_directory plain_env (world_of (Some (DirObj [])) None) =
     (None, \<lparr>source = Some (DirObj []),
             target = Some (ZipObj [(''links.json'', Json []), (''links.json'', Json [])]),
             errors = []\<rparr>)"
  by code_simp

section \<open>An archive without manifest\<close>

text \<open>
  Claim C7. When the source is an archive with no entry named \<^verbatim>\<open>links.json\<close>, the
  process exits with status 1 whatever the arguments are. When the target is a directory
  or does not exist, \<open>unpackage_directory\<close> raises \<^verbatim>\<open>KeyError\<close> before any entry is
  extracted: the target directory is as it was, or is new and empty.
\<close>

theorem missing_manifest_exit_1:
  assumes "source w = Some (ZipObj zf)" and "zip_read zf ''links.json'' = None"
  shows "fst (main env source_arg target_arg w) = Exit 1 \<and>
         (target w = None \<or> is_dir_obj (target w) \<longrightarrow>
            (\<exists>tgt0. unpackage_directory env w = (Some KeyError, w\<lparr>target := Some (DirObj tgt0)\<rparr>) \<and>
                    (target w = None \<and> tgt0 = [] \<or> target w = Some (DirObj tgt0))))"
proof -
  have u: "target w = None \<or> is_dir_obj (target w) \<Longrightarrow>
        \<exists>tgt0. unpackage_directory env w = (Some KeyError, w\<lparr>target := Some (DirObj tgt0)\<rparr>) \<and>
                    (target w = None \<and> tgt0 = [] \<or> target w = Some (DirObj tgt0))"
    using assms
    by (auto simp: unpackage_directory_def ZipFile_r_def is_dir_obj_def Let_def
        split: option.splits fsobj.splits)
  have "fst (main env source_arg target_arg w) = Exit 1"
  proof (cases "suffix source_arg = ''.zip'' \<and> (is_dir_obj (target w) \<or> target w = None)")
    case True
    with u obtain tgt0 where
      "unpackage_directory env w = (Some KeyError, w\<lparr>target := Some (DirObj tgt0)\<rparr>)"
      by blast
    with True assms(1) show ?thesis
      by (simp add: main_def is_dir_obj_def finish_def)
  next
    case False
    with assms(1) show ?thesis
      by (auto simp: main_def is_dir_obj_def)
  qed
  with u show ?thesis by blast
qed

theorem missing_manifest_exit_1_witness:
  "fst (main plain_env ''in.zip'' ''out'' (world_of (Some (ZipObj [(''f'', Data ''1'')])) None)) = Exit 1 \<and>
   unpackage_directory plain_env (world_of (Some (ZipObj [(''f'', Data ''1'')])) None) =
     (Some KeyError, \<lparr>source = Some (ZipObj [(''f'', Data ''1'')]), target = Some (DirObj []), errors = []\<rparr>)"
proof -
  let ?w = "world_of (Some (ZipObj [(''f'', Data ''1'')])) None"
  have s: "source ?w = Some (ZipObj [(''f'', Data ''1'')])"
    by (simp add: world_of_def)
  have z: "zip_read [(''f'', Data ''1'')] ''links.json'' = None"
    by code_simp
  have t: "target ?w = None"
    by (simp add: world_of_def)
  from missing_manifest_exit_1 [OF s z, of plain_env "''in.zip''" "''out''"] t
  show ?thesis
    by (auto simp: world_of_def)
qed

section \<open>Lemmas about the file system operations\<close>
















lemma clear_path_nonempty:
  assumes "clear_path env p tgt = Inr tgt2"
  shows "p \<noteq> []"
proof
  assume "p = []"
  with assms show False
    by (simp add: clear_path_def unlink_def has_nul_def)
qed


lemma restore_links_append:
  "restore_links env (pre @ post) (tgt, log) =
     (case restore_links env pre (tgt, log) of
        (None, tgt1, log1) \<Rightarrow> restore_links env post (tgt1, log1)
      | (Some e, r) \<Rightarrow> (Some e, r))"
  by (induction env pre "(tgt, log)" arbitrary: tgt log rule: restore_links.induct)
     (auto simp: Let_def split: sum.splits)

lemma walk_unreadable: "\<not> readable env root \<Longrightarrow> walk env root es = []"
  by simp



lemma unlink_links_json_absent:
  assumes "unlink links_json es = Inr es'"
  shows "lstat es' links_json = Absent"
  using assms
  by (auto simp: unlink_def links_json_def delete_conv' split: option.splits node.splits)



section \<open>Invalid arguments\<close>







section \<open>The manifest file in the source directory\<close>

text \<open>
  Claim C9, as stated, fails on the failure path: the manifest file is unlinked by the
  last statement of \<open>package_directory\<close> only. When the archive cannot be created, the
  exception leaves \<^verbatim>\<open>links.json\<close> in the source directory.
\<close>

theorem failed_pack_leaves_manifest_file:
  "package_directory no_zip_env (world_of (Some (DirObj [])) None) =
     (Some FileNotFoundError,
      \<lparr>source = Some (DirObj [(''links.json'', File (Json []))]), target = None, errors = []\<rparr>)"
  by code_simp

text \<open>
  Claim C9, amended to the success path: when \<open>package_directory\<close> returns normally,
  the source directory holds no entry named \<^verbatim>\<open>links.json\<close>.
\<close>

theorem manifest_file_removed_on_success:
  assumes "package_directory env w = (None, w')"
  shows "\<exists>src'. source w' = Some (DirObj src') \<and> lstat src' links_json = Absent"
proof -
  from assms obtain src1 src2 zf2 where
    u: "unlink links_json src1 = Inr src2" and
    w': "w' = w\<lparr>source := Some (DirObj src2), target := Some (ZipObj zf2)\<rparr>"
    unfolding package_directory_def Let_def
    by (auto split: option.splits fsobj.splits sum.splits prod.splits)
  from unlink_links_json_absent [OF u] w' show ?thesis
    by simp
qed

theorem manifest_file_removed_on_success_witness:
  "\<exists>src'. source (snd (package_directory plain_env (world_of (Some (DirObj example_tree)) None))) = Some (DirObj src') \<and>
          lstat src' links_json = Absent"
proof -
  have "fst (package_directory plain_env (world_of (Some (DirObj example_tree)) None)) = None"
    by code_simp
  then obtain w' where
    p: "package_directory plain_env (world_of (Some (DirObj example_tree)) None) = (None, w')"
    by (metis prod.collapse)
  from manifest_file_removed_on_success [OF p] p show ?thesis
    by simp
qed

section \<open>Directories that cannot be listed\<close>




section \<open>Restoring the links\<close>

text \<open>
  Claim C4, as stated, fails: only \<^verbatim>\<open>os.symlink\<close> stands inside the \<^verbatim>\<open>try\<close>. An
  occupant that cannot be removed (a directory at the path of the first link) raises out
  of \<open>unpackage_directory\<close>, and the second link of the manifest is never restored.
\<close>

theorem directory_occupant_aborts_restore:
  "unpackage_directory plain_env
     (world_of (Some (ZipObj [(''links.json'', Json [(''a'', Str ''x''), (''b'', Str ''y'')])]))
               (Some (DirObj [(''a'', Dir [])]))) =
     (Some IsADirectoryError,
      \<lparr>source = Some (ZipObj [(''links.json'', Json [(''a'', Str ''x''), (''b'', Str ''y'')])]),
        target = Some (DirObj [(''a'', Dir [])]), errors = []\<rparr>)"
  by code_simp

text \<open>
  Claim C4, amended to what the \<^verbatim>\<open>try\<close> statement covers. Take an entry whose key
  stays inside the target directory, after the entries before it have been restored.
  When a statement before the \<^verbatim>\<open>try\<close> raises (making the parent directory,
  \<^verbatim>\<open>exists()\<close>, the unlink of the occupant), the exception ends the loop and leaves
  \<open>unpackage_directory\<close>. When they return and \<^verbatim>\<open>os.symlink\<close> raises an
  \<^verbatim>\<open>OSError\<close>, it is logged, the entry is skipped, and the loop goes on with the
  remaining entries from the same tree. Any other exception of \<^verbatim>\<open>os.symlink\<close> (the
  \<^verbatim>\<open>ValueError\<close> for a NUL in the target or in the key) ends the loop as well.
\<close>

theorem failed_symlink_is_skipped:
  assumes "restore_links env pre (tgt, log) = (None, tgt1, log1)"
    and "\<not> isabs k" and "''..'' \<notin> set (key_parts k)"
  shows "(\<forall>e. clear_path env (key_parts k) tgt1 = Inl e \<longrightarrow>
            restore_links env (pre @ (k, v) # post) (tgt, log) = (Some e, tgt1, log1)) \<and>
         (\<forall>tgt2 e. clear_path env (key_parts k) tgt1 = Inr tgt2 \<and>
                   os_symlink env v (key_parts k) tgt2 = Inl e \<longrightarrow>
            restore_links env (pre @ (k, v) # post) (tgt, log) =
              (if is_OSError e
               then restore_links env post (tgt2, log1 @ [Restore_failed k v e])
               else (Some e, tgt2, log1)))"
proof (intro conjI allI impI)
  fix e
  assume c: "clear_path env (key_parts k) tgt1 = Inl e"
  have "restore_links env ((k, v) # post) (tgt1, log1) = (Some e, tgt1, log1)"
  proof (cases "key_parts k = []")
    case True
    from c have "e = IsADirectoryError"
      unfolding True by (simp add: clear_path_def unlink_def has_nul_def)
    with True assms(2) show ?thesis
      by (simp add: Let_def)
  next
    case False
    with assms(2,3) c show ?thesis
      by (simp add: Let_def)
  qed
  with assms(1) show "restore_links env (pre @ (k, v) # post) (tgt, log) = (Some e, tgt1, log1)"
    by (simp add: restore_links_append)
next
  fix tgt2 e
  assume a: "clear_path env (key_parts k) tgt1 = Inr tgt2 \<and>
             os_symlink env v (key_parts k) tgt2 = Inl e"
  then have c: "clear_path env (key_parts k) tgt1 = Inr tgt2"
    and s: "os_symlink env v (key_parts k) tgt2 = Inl e"
    by simp_all
  from clear_path_nonempty [OF c] have ne: "key_parts k \<noteq> []" .
  from assms(2,3) c s ne
  have "restore_links env ((k, v) # post) (tgt1, log1) =
          (if is_OSError e
           then restore_links env post (tgt2, log1 @ [Restore_failed k v e])
           else (Some e, tgt2, log1))"
    by (simp add: Let_def)
  with assms(1) show "restore_links env (pre @ (k, v) # post) (tgt, log) =
              (if is_OSError e
               then restore_links env post (tgt2, log1 @ [Restore_failed k v e])
               else (Some e, tgt2, log1))"
    by (simp add: restore_links_append)
qed

theorem failed_symlink_is_skipped_witness:
  "restore_links no_link_env [(''a'', Str ''x''), (''b'', Str ''y'')] ([(''a'', File (Data ''z''))], []) =
     (None, [(''b'', Link ''y'')], [Restore_failed ''a'' (Str ''x'') PermissionError]) \<and>
   restore_links plain_env [(''a'', Str [CHR 0x00]), (''b'', Str ''y'')] ([(''a'', File (Data ''z''))], []) =
     (Some ValueError, [], []) \<and>
   restore_links guarded_env [(''a'', Str ''x''), (''b'', Str ''y'')] ([(''a'', Link ''/root/y'')], []) =
     (Some PermissionError, [(''a'', Link ''/root/y'')], [])"
proof -
  have 1: "restore_links no_link_env [] ([(''a'', File (Data ''z''))], []) =
             (None, [(''a'', File (Data ''z''))], [])"
    by simp
  have 2: "\<not> isabs ''a''"
    by code_simp
  have 3: "''..'' \<notin> set (key_parts ''a'')"
    by code_simp
  have 4: "clear_path no_link_env (key_parts ''a'') [(''a'', File (Data ''z''))] = Inr [] \<and>
           os_symlink no_link_env (Str ''x'') (key_parts ''a'') [] = Inl PermissionError"
    by code_simp
  have 6: "restore_links no_link_env [(''b'', Str ''y'')] ([], [] @ [Restore_failed ''a'' (Str ''x'') PermissionError]) =
             (None, [(''b'', Link ''y'')], [Restore_failed ''a'' (Str ''x'') PermissionError])"
    by code_simp
  have o: "is_OSError PermissionError"
    by code_simp
  have 7: "restore_links plain_env [] ([(''a'', File (Data ''z''))], []) =
             (None, [(''a'', File (Data ''z''))], [])"
    by simp
  have 8: "clear_path plain_env (key_parts ''a'') [(''a'', File (Data ''z''))] = Inr [] \<and>
           os_symlink plain_env (Str [CHR 0x00]) (key_parts ''a'') [] = Inl ValueError"
    by code_simp
  have n: "\<not> is_OSError ValueError"
    by code_simp
  have 9: "restore_links guarded_env [] ([(''a'', Link ''/root/y'')], []) =
             (None, [(''a'', Link ''/root/y'')], [])"
    by simp
  have 10: "clear_path guarded_env (key_parts ''a'') [(''a'', Link ''/root/y'')] = Inl PermissionError"
    by code_simp
  from failed_symlink_is_skipped [OF 1 2 3, of "Str ''x''" "[(''b'', Str ''y'')]"] 4
  have "restore_links no_link_env ([] @ (''a'', Str ''x'') # [(''b'', Str ''y'')]) ([(''a'', File (Data ''z''))], []) =
          (if is_OSError PermissionError
           then restore_links no_link_env [(''b'', Str ''y'')] ([], [] @ [Restore_failed ''a'' (Str ''x'') PermissionError])
           else (Some PermissionError, [], []))"
    by blast
  with 6 o
  have a: "restore_links no_link_env [(''a'', Str ''x''), (''b'', Str ''y'')] ([(''a'', File (Data ''z''))], []) =
     (None, [(''b'', Link ''y'')], [Restore_failed ''a'' (Str ''x'') PermissionError])"
    by simp
  from failed_symlink_is_skipped [OF 7 2 3, of "Str [CHR 0x00]" "[(''b'', Str ''y'')]"] 8
  have "restore_links plain_env ([] @ (''a'', Str [CHR 0x00]) # [(''b'', Str ''y'')]) ([(''a'', File (Data ''z''))], []) =
          (if is_OSError ValueError
           then restore_links plain_env [(''b'', Str ''y'')] ([], [] @ [Restore_failed ''a'' (Str [CHR 0x00]) ValueError])
           else (Some ValueError, [], []))"
    by blast
  with n
  have b: "restore_links plain_env [(''a'', Str [CHR 0x00]), (''b'', Str ''y'')] ([(''a'', File (Data ''z''))], []) =
     (Some ValueError, [], [])"
    by simp
  from failed_symlink_is_skipped [OF 9 2 3, of "Str ''x''" "[(''b'', Str ''y'')]"] 10
  have "restore_links guarded_env ([] @ (''a'', Str ''x'') # [(''b'', Str ''y'')]) ([(''a'', Link ''/root/y'')], []) =
          (Some PermissionError, [(''a'', Link ''/root/y'')], [])"
    by blast
  then have c: "restore_links guarded_env [(''a'', Str ''x''), (''b'', Str ''y'')] ([(''a'', Link ''/root/y'')], []) =
     (Some PermissionError, [(''a'', Link ''/root/y'')], [])"
    by simp
  from a b c show ?thesis
    by simp
qed




section \<open>The manifest file in the target directory\<close>













section \<open>Paths and their strings\<close>

lemma split_sep_nonempty: "split_sep s \<noteq> []"
  by (induction s) (auto split: list.splits)


















section \<open>A tree below another tree\<close>










lemma present_Nil [simp]: "present es []"
  by (simp add: present_def)






section \<open>One file extracted, one link restored\<close>







section \<open>The extraction loop and the restoration loop\<close>







section \<open>Unpacking an archive made from a tree\<close>



section \<open>What the walk visits\<close>












section \<open>The manifest of a tree\<close>










section \<open>The archive of a tree\<close>




section \<open>Packing a well-formed tree\<close>






section \<open>The round trip\<close>





end
